theory Spec2Isabelle
  imports Complex_Main "HOL-Library.Sublist"
begin

section \<open>Lesson scripts of the teaching corpus: definitions\<close>

text \<open>
  The repository is a sequence of executed notebook scripts. This theory embeds the
  functions, classes, loops and boundary effects that those scripts define themselves.
  A call into an external library appears as a parameter (a record of the library's
  operations) or as the value the library returned; nothing is assumed about it.
  Python integers are \<^typ>\<open>int\<close>; an exception is a value of \<open>py_error\<close>; a
  computation that may not return has an \<open>option\<close> result, \<open>None\<close> meaning that
  it does not return.
\<close>

datatype py_error = ZeroDivisionError | AssertionError | KeyError

text \<open>
  \<open>str\<close> of an integer, as the f-string \<open>f"{fast}"\<close> and \<open>print\<close> produce it:
  decimal digits, a minus sign for a negative number.
\<close>

definition digit_char :: "nat \<Rightarrow> char" where
  "digit_char d = ''0123456789'' ! d"

fun str_nat :: "nat \<Rightarrow> string" where
  "str_nat n =
     (if n < 10 then [digit_char n] else str_nat (n div 10) @ [digit_char (n mod 10)])"

declare str_nat.simps [simp del]

definition py_str :: "int \<Rightarrow> string" where
  "py_str i = (if i < 0 then CHR ''-'' # str_nat (nat (- i)) else str_nat (nat i))"

text \<open>\<open>assert b\<close> raises \<open>AssertionError\<close> unless \<open>b\<close> holds.\<close>

definition py_assert :: "bool \<Rightarrow> py_error + unit" where
  "py_assert b = (if b then Inr () else Inl AssertionError)"

subsection \<open>\<open>03_python_basics.py\<close>: functions\<close>


text \<open>
  \<^verbatim>\<open>
  def return_list(n):
      return [i for i in range(n)]
  \<close>
  \<open>range(n)\<close> runs over the integers from \<open>0\<close> up to \<open>n - 1\<close> and is empty for
  \<open>n \<le> 0\<close>; the comprehension maps the identity over it.
\<close>

definition py_range :: "int \<Rightarrow> int list" where
  "py_range n = [0..n - 1]"

definition return_list :: "int \<Rightarrow> int list" where
  "return_list n = map (\<lambda>i. i) (py_range n)"

text \<open>
  \<^verbatim>\<open>
  def yield_list(n):    # function mimics range()
      i = 0
      while i < n:
          yield i
          i += 1
  \<close>
  Calling \<open>yield_list(n)\<close> runs nothing: it creates a generator object. The object is
  either newly created (holding the argument), suspended at the \<open>yield\<close> (holding
  \<open>i\<close> and \<open>n\<close>), or finished. \<open>next\<close> resumes it up to the following \<open>yield\<close>;
  \<open>None\<close> as the value stands for \<open>StopIteration\<close>.
\<close>

datatype generator = Created int | Suspended int int | Finished

definition yield_list :: "int \<Rightarrow> generator" where
  "yield_list n = Created n"

fun gen_next :: "generator \<Rightarrow> int option \<times> generator" where
  "gen_next (Created n) =
     (if 0 < n then (Some 0, Suspended 0 n) else (None, Finished))"
| "gen_next (Suspended i n) =
     (if i + 1 < n then (Some (i + 1), Suspended (i + 1) n) else (None, Finished))"
| "gen_next Finished = (None, Finished)"

text \<open>
  \<open>list(gen)\<close> and \<open>for i in gen\<close> call \<open>next\<close> until \<open>StopIteration\<close>. The number of
  values still to come bounds the iteration.
\<close>

fun gen_remaining :: "generator \<Rightarrow> nat" where
  "gen_remaining (Created n) = nat n + 1"
| "gen_remaining (Suspended i n) = nat (n - i)"
| "gen_remaining Finished = 0"

function gen_to_list :: "generator \<Rightarrow> int list" where
  "gen_to_list g =
     (case gen_next g of (None, _) \<Rightarrow> [] | (Some v, g') \<Rightarrow> v # gen_to_list g')"
  by pat_completeness auto
termination
proof (relation "measure gen_remaining")
  show "wf (measure gen_remaining)" by simp
next
  fix g :: generator and x y v
  assume "(x, y) = gen_next g" "x = Some v"
  then show "(y, g) \<in> measure gen_remaining"
    by (cases g) (auto split: if_splits)
qed

declare gen_to_list.simps [simp del]


subsection \<open>\<open>03_python_basics.py\<close>: classes\<close>

text \<open>
  \<^verbatim>\<open>
  class Student():
      def __init__(self, uni, subject, grades):
          self.uni = uni
          self.subject = subject
          self.grades = grades
      def avg_grade(self):
          return np.mean(self.grades)

  class LocalResident(Student):
      def __init__(self, uni, subject, grades, address):
          super().__init__(uni, subject, grades)
          self.address = address
  \<close>
  An object is the record of its instance attributes; the subclass extends the record.
  The type of a grade is left open, and \<open>np.mean\<close> is a parameter of \<open>avg_grade\<close>.
  An attribute assignment such as \<open>Chris.subject = 'engineering'\<close> is a record update.
\<close>

record 'g Student =
  uni :: string
  subject :: string
  grades :: "'g list"

definition Student_init :: "string \<Rightarrow> string \<Rightarrow> 'g list \<Rightarrow> 'g Student" where
  "Student_init u s g = \<lparr>uni = u, subject = s, grades = g\<rparr>"

definition avg_grade :: "('g list \<Rightarrow> 'm) \<Rightarrow> ('g, 'z) Student_scheme \<Rightarrow> 'm" where
  "avg_grade np_mean self = np_mean (grades self)"

record 'g LocalResident = "'g Student" +
  address :: string

definition LocalResident_init ::
  "string \<Rightarrow> string \<Rightarrow> 'g list \<Rightarrow> string \<Rightarrow> 'g LocalResident" where
  "LocalResident_init u s g a =
     Student.extend (Student_init u s g) (LocalResident.fields a)"

subsection \<open>\<open>04_data.py\<close>: the query cells and their assertion\<close>

text \<open>
  \<^verbatim>\<open>
  my_query = 'SELECT * FROM historical_data'
  results = conn.execute(my_query)
  df = pd.DataFrame(results.fetchall(), columns=results.keys())
  df2 = pd.read_sql_query(my_query, conn)
  assert df.equals(df2)
  \<close>
  Cells 33 to 35. The database and dataframe libraries are the record \<open>sql_lib\<close>:
  \<open>frame_of_result\<close> is \<open>pd.DataFrame(results.fetchall(), columns=results.keys())\<close>.
  The cells leave \<open>df\<close> and \<open>df2\<close> behind unless the assertion raises.
\<close>

record ('conn, 'res, 'df) sql_lib =
  execute :: "'conn \<Rightarrow> string \<Rightarrow> 'res"
  frame_of_result :: "'res \<Rightarrow> 'df"
  read_sql_query :: "string \<Rightarrow> 'conn \<Rightarrow> 'df"
  equals :: "'df \<Rightarrow> 'df \<Rightarrow> bool"

definition cells_33_35 ::
  "('conn, 'res, 'df) sql_lib \<Rightarrow> 'conn \<Rightarrow> py_error + 'df \<times> 'df" where
  "cells_33_35 lib conn =
     (let my_query = ''SELECT * FROM historical_data'';
          results = execute lib conn my_query;
          df = frame_of_result lib results;
          df2 = read_sql_query lib my_query conn
      in case py_assert (equals lib df df2) of
           Inl e \<Rightarrow> Inl e
         | Inr _ \<Rightarrow> Inr (df, df2))"

subsection \<open>\<open>05_online.py\<close>: requests and the download loop\<close>

text \<open>
  A response of the \<open>requests\<close> library, as far as the scripts look at it: the status
  code, and \<open>response.json()['historical']\<close>, which is \<open>None\<close> where that
  expression raises. A row of the price history is left abstract.
\<close>

record 'r http_response =
  status_code :: int
  historical :: "'r list option"

definition base_url :: string where
  "base_url = ''https://financialmodelingprep.com/api/v3/''"

text \<open>
  \<^verbatim>\<open>
  filing = 'dowjones_constituent'
  response = re.get(base_url+filing, params=params)
  print(response.status_code)
  \<close>
  Cell 21: the printed lines and the response, which the next cell reads whatever the
  status was.
\<close>

definition cell_21 :: "(string \<Rightarrow> 'r http_response) \<Rightarrow> string list \<times> 'r http_response" where
  "cell_21 re_get =
     (let filing = ''dowjones_constituent'';
          response = re_get (base_url @ filing)
      in ([py_str (status_code response)], response))"

text \<open>
  \<^verbatim>\<open>
  filing = 'historical-price-full'
  dji_hist = pd.DataFrame()
  for symbol in dji_symbols[:5]:
      response = re.get(base_url+filing+'/'+symbol, params=params)
      if response.status_code != 200:
          print('Error! Aborted')
          break
      temp_df = pd.DataFrame.from_dict(response.json()['historical'], orient='columns')
      temp_df['symbol'] = symbol
      dji_hist = pd.concat([dji_hist, temp_df], ignore_index=True)
      del temp_df
  \<close>
  Cell 24. The state of the cell is the log of URLs requested, the lines printed and the
  collected frame, whose rows carry the symbol as an added column. The network may answer
  the same URL differently at different times: \<open>re_get k url\<close> is the response to the
  request number \<open>k\<close> (from \<open>0\<close>) of the loop. The first component of the result is the
  exception that ended the cell, if any.
\<close>

record 'r cell_state =
  requests :: "string list"
  printed :: "string list"
  dji_hist :: "('r \<times> string) list"

definition symbol_url :: "string \<Rightarrow> string" where
  "symbol_url symbol = base_url @ ''historical-price-full'' @ ''/'' @ symbol"

fun dji_loop :: "(nat \<Rightarrow> string \<Rightarrow> 'r http_response) \<Rightarrow> string list \<Rightarrow> 'r cell_state
                   \<Rightarrow> py_error option \<times> 'r cell_state" where
  "dji_loop re_get [] s = (None, s)"
| "dji_loop re_get (symbol # rest) s =
     (let response = re_get (length (requests s)) (symbol_url symbol);
          s1 = s\<lparr>requests := requests s @ [symbol_url symbol]\<rparr>
      in if status_code response \<noteq> 200
         then (None, s1\<lparr>printed := printed s1 @ [''Error! Aborted'']\<rparr>)
         else (case historical response of
                 None \<Rightarrow> (Some KeyError, s1)
               | Some rows \<Rightarrow>
                   dji_loop re_get rest
                     (s1\<lparr>dji_hist := dji_hist s1 @ map (\<lambda>row. (row, symbol)) rows\<rparr>)))"

definition cell_24 :: "(nat \<Rightarrow> string \<Rightarrow> 'r http_response) \<Rightarrow> string list
                         \<Rightarrow> py_error option \<times> 'r cell_state" where
  "cell_24 re_get dji_symbols =
     dji_loop re_get (take 5 dji_symbols) \<lparr>requests = [], printed = [], dji_hist = []\<rparr>"

text \<open>
  For stating what the loop collected: the frame that the request number \<open>j\<close>, for
  \<open>symbol\<close>, contributes, and whether that request succeeds.
\<close>

definition frame_of :: "(nat \<Rightarrow> string \<Rightarrow> 'r http_response) \<Rightarrow> nat \<times> string
                          \<Rightarrow> ('r \<times> string) list" where
  "frame_of re_get = (\<lambda>(j, symbol).
      map (\<lambda>row. (row, symbol)) (the (historical (re_get j (symbol_url symbol)))))"

definition succeeds :: "(nat \<Rightarrow> string \<Rightarrow> 'r http_response) \<Rightarrow> nat \<times> string \<Rightarrow> bool" where
  "succeeds re_get = (\<lambda>(j, symbol).
      status_code (re_get j (symbol_url symbol)) = 200
      \<and> historical (re_get j (symbol_url symbol)) \<noteq> None)"

subsection \<open>\<open>06_scraping.py\<close>: the spiders\<close>

text \<open>
  A request is a URL with the callback that handles its response. A response is what
  the callbacks read of it: \<open>response.url\<close>, the list
  \<open>response.css('a::attr(href)').extract()\<close>, the list
  \<open>response.xpath('//p/text()').extract()\<close>, and the URL that \<open>response.follow\<close>
  makes of a link.
\<close>

record 'cb request =
  req_url :: string
  req_callback :: 'cb

record response =
  resp_url :: string
  hrefs :: "string list"
  p_texts :: "string list"
  follow_url :: "string \<Rightarrow> string"

text \<open>
  \<^verbatim>\<open>
  class mySpider(scrapy.Spider):
      def start_requests(self):
          urls = ['http://www.example.com']
          for url in urls:
              yield scrapy.Request(url=url, callback=self.parse)
  \<close>
\<close>

datatype mySpider_callback = MySpider_parse

definition mySpider_start_requests :: "mySpider_callback request list" where
  "mySpider_start_requests =
     (let urls = [''http://www.example.com'']
      in map (\<lambda>url. \<lparr>req_url = url, req_callback = MySpider_parse\<rparr>) urls)"

text \<open>
  \<^verbatim>\<open>
  class followSpider(scrapy.Spider):
      def start_requests(self):
          urls = ['http://www.example.com']
          for url in urls:
              yield scrapy.Request(url=url, callback=self.parse_links)

      def parse_links(self, response):
          links = response.css('a::attr(href)').extract()
          print(''.join(response.xpath('//p/text()').extract()))
          for link in links:
              yield response.follow(url=link, callback=self.parse)

      def parse(self, response):
          print(response.url)
          print(''.join(response.xpath('//p/text()').extract()))
  \<close>
  A callback returns the lines it prints and the requests it yields.
\<close>

datatype followSpider_callback = Parse_links | Parse

definition start_requests :: "followSpider_callback request list" where
  "start_requests =
     (let urls = [''http://www.example.com'']
      in map (\<lambda>url. \<lparr>req_url = url, req_callback = Parse_links\<rparr>) urls)"









subsection \<open>\<open>09_sklearn.py\<close>: the scaling check\<close>

text \<open>
  \<^verbatim>\<open>
  calc_result = x_alt - scaler.mean_
  calc_result /= scaler.scale_
  print(calc_result.mean())
  assert calc_result.mean() == x_alt_scaled.mean()
  \<close>
  Cell 4. Arrays, floating-point numbers and the operations on them belong to the array
  library, the record \<open>numpy\<close>; \<open>float_eq\<close> is \<open>==\<close> on two floats. The cell returns
  the lines printed and the outcome of the assertion.
\<close>

record ('arr, 'f) numpy =
  array_sub :: "'arr \<Rightarrow> 'arr \<Rightarrow> 'arr"
  array_div :: "'arr \<Rightarrow> 'arr \<Rightarrow> 'arr"
  array_mean :: "'arr \<Rightarrow> 'f"
  float_eq :: "'f \<Rightarrow> 'f \<Rightarrow> bool"
  float_str :: "'f \<Rightarrow> string"

definition sklearn_cell_4 ::
  "('arr, 'f) numpy \<Rightarrow> 'arr \<Rightarrow> 'arr \<Rightarrow> 'arr \<Rightarrow> 'arr \<Rightarrow> string list \<times> (py_error + unit)" where
  "sklearn_cell_4 np x_alt scaler_mean scaler_scale x_alt_scaled =
     (let calc_result = array_sub np x_alt scaler_mean;
          calc_result = array_div np calc_result scaler_scale
      in ([float_str np (array_mean np calc_result)],
          py_assert (float_eq np (array_mean np calc_result) (array_mean np x_alt_scaled))))"

subsection \<open>\<open>13_financial_stats.py\<close>: the oscillator\<close>

text \<open>
  \<^verbatim>\<open>
  def awe_osc(high, low, fast=5, slow=34):
      if slow < fast:
          fast, slow = slow, fast
      median_price = 0.5 * (high + low)
      fast_sma = median_price.rolling(fast).mean()
      slow_sma = median_price.rolling(slow).mean()
      ao = fast_sma - slow_sma
      ao.name = f"AO_{fast}_{slow}"
      return pd.DataFrame(ao)
  \<close>
  Series and their arithmetic belong to the dataframe library, the record \<open>pandas\<close>:
  \<open>rolling_mean w s\<close> is \<open>s.rolling(w).mean()\<close>. The dataframe made of one named
  series is the list of its one column, the name with the values.
\<close>

record 's pandas =
  series_add :: "'s \<Rightarrow> 's \<Rightarrow> 's"
  scalar_mul :: "rat \<Rightarrow> 's \<Rightarrow> 's"
  rolling_mean :: "int \<Rightarrow> 's \<Rightarrow> 's"
  series_sub :: "'s \<Rightarrow> 's \<Rightarrow> 's"

definition awe_osc :: "'s pandas \<Rightarrow> 's \<Rightarrow> 's \<Rightarrow> int \<Rightarrow> int \<Rightarrow> (string \<times> 's) list" where
  "awe_osc pd high low fast0 slow0 =
     (let (fast, slow) = (if slow0 < fast0 then (slow0, fast0) else (fast0, slow0));
          median_price = scalar_mul pd (1 / 2) (series_add pd high low);
          fast_sma = rolling_mean pd fast median_price;
          slow_sma = rolling_mean pd slow median_price;
          ao = series_sub pd fast_sma slow_sma;
          name = ''AO_'' @ py_str fast @ ''_'' @ py_str slow
      in [(name, ao)])"

subsection \<open>What the lessons read, write and request\<close>

text \<open>
  Each lesson script is a straight line of cells, so what it touches outside the
  interpreter is a list, in the order of the source: a \<open>requests.get\<close> of a URL, a
  start request of a spider, a table read from a URL (\<open>pd.read_csv\<close> of a URL), a file
  read or written under a path, and a call of a client library that chooses its own
  endpoint (\<open>wikipediaapi\<close>, \<open>yfinance\<close>). A database is the file behind its
  connection. The requests of the download loop of \<open>05_online.py\<close> and the follow-up
  requests of \<open>followSpider\<close> depend on data; they are \<open>symbol_url\<close> and the requests
  that \<open>parse_links\<close> yields.
\<close>

datatype lesson =
    L03_python_basics | L04_data | L05_online | L06_scraping | L07_graphics
  | L08_interactive_plots | L08_interactive_plots_temp | L09_dash_I | L09_dash_II
  | L09_sklearn | L10_dash_II | L10_dash_II_alt | L12_markdown | L13_financial_stats

datatype effect =
    Http_get string
  | Spider_request string
  | Read_url string
  | Read_file string
  | Write_file string
  | Client_library string string

fun boundary :: "lesson \<Rightarrow> effect list" where
  "boundary L03_python_basics = []"
| "boundary L04_data =
     [Read_file ''data/DAX.csv'',
      Write_file ''DAX.xlsx'',
      Write_file ''data/dax_db.sqlite'',
      Read_file ''data/dax_db.sqlite'',
      Read_file ''data/dax_db.sqlite'']"
| "boundary L05_online =
     [Client_library ''wikipediaapi'' ''University_of_Passau'',
      Http_get ''https://en.wikipedia.org/w/api.php'',
      Http_get ''https://en.wikipedia.org/wiki/University_of_Passau'',
      Http_get (base_url @ ''profile'' @ ''/'' @ ''GOOG''),
      Http_get (base_url @ ''dowjones_constituent'')]"
| "boundary L06_scraping =
     Http_get ''https://finance.yahoo.com/quote/AAPL/analysis?p=AAPL''
     # map (\<lambda>rq. Spider_request (req_url rq)) mySpider_start_requests
     @ map (\<lambda>rq. Spider_request (req_url rq)) start_requests"
| "boundary L07_graphics =
     [Read_url ''https://www.dropbox.com/s/sbqezclbr7qkx5r/BankChurners_mod.csv?dl=1'']"
| "boundary L08_interactive_plots =
     [Read_file ''data/dax.xlsx'',
      Read_file ''data/BankChurners.csv'',
      Read_url ''https://www.dropbox.com/s/inw5s8x4pp0p0kh/historical_data.csv?dl=1'',
      Write_file ''plotly.html'',
      Write_file ''plotly.pdf'',
      Write_file ''plotly.png'']"
| "boundary L08_interactive_plots_temp =
     [Read_file ''/users/jan/data/dax.xlsx'',
      Read_file ''/users/jan/data/BankChurners.csv'',
      Read_url ''https://www.dropbox.com/s/inw5s8x4pp0p0kh/historical_data.csv?dl=1'']"
| "boundary L09_dash_I = []"
| "boundary L09_dash_II =
     [Read_url ''https://raw.githubusercontent.com/plotly/datasets/master/imports-85.csv'']"
| "boundary L09_sklearn = [Read_file ''data/insurance.csv'']"
| "boundary L10_dash_II = [Read_file ''data/dji_sector_prices.csv'']"
| "boundary L10_dash_II_alt =
     [Read_file ''data/dji_100_days.csv'',
      Read_url ''https://raw.githubusercontent.com/plotly/datasets/master/imports-85.csv'']"
| "boundary L12_markdown = []"
| "boundary L13_financial_stats =
     [Client_library ''yfinance'' ''MSFT'',
      Client_library ''yfinance'' ''AMD'',
      Client_library ''yfinance'' ''AAPL'']"

fun remote_url :: "effect \<Rightarrow> string option" where
  "remote_url (Http_get u) = Some u"
| "remote_url (Spider_request u) = Some u"
| "remote_url (Read_url u) = Some u"
| "remote_url _ = None"

fun read_path :: "effect \<Rightarrow> string option" where
  "read_path (Read_file p) = Some p"
| "read_path _ = None"


definition remote_urls :: "lesson \<Rightarrow> string list" where
  "remote_urls l = List.map_filter remote_url (boundary l)"

definition reads :: "lesson \<Rightarrow> string list" where
  "reads l = List.map_filter read_path (boundary l)"


text \<open>
  A URL targets one of a list of endpoints if it starts with it; the extension of a path
  is what follows its last dot.
\<close>

definition targets :: "string list \<Rightarrow> string \<Rightarrow> bool" where
  "targets endpoints url = (\<exists>e \<in> set endpoints. prefix e url)"

definition file_ext :: "string \<Rightarrow> string" where
  "file_ext p = rev (takeWhile (\<lambda>c. c \<noteq> CHR ''.'') (rev p))"

text \<open>
  The three services that the specification names (Wikipedia, the financial-data
  provider, Yahoo Finance), and the endpoints that the URLs of the code are under.
\<close>

definition named_endpoints :: "string list" where
  "named_endpoints =
     [''https://en.wikipedia.org/'', ''https://financialmodelingprep.com/'',
      ''https://finance.yahoo.com/'']"

definition contacted_endpoints :: "string list" where
  "contacted_endpoints = named_endpoints @
     [''http://www.example.com'', ''https://www.dropbox.com/'',
      ''https://raw.githubusercontent.com/'']"

subsection \<open>Concrete libraries, webs and networks for evaluation\<close>

text \<open>
  An instance of the dataframe operations over exact rationals, a missing value being
  \<open>None\<close>: series are aligned by position, and the rolling mean over a window of
  \<open>w > 0\<close> values is missing until \<open>w\<close> values are there.
\<close>

fun series_binop :: "(rat \<Rightarrow> rat \<Rightarrow> rat) \<Rightarrow> rat option list \<Rightarrow> rat option list
                       \<Rightarrow> rat option list" where
  "series_binop f (x # xs) (y # ys) =
     (case (x, y) of (Some a, Some b) \<Rightarrow> Some (f a b) | _ \<Rightarrow> None) # series_binop f xs ys"
| "series_binop f [] ys = map (\<lambda>_. None) ys"
| "series_binop f xs [] = map (\<lambda>_. None) xs"

definition window_mean :: "nat \<Rightarrow> rat option list \<Rightarrow> nat \<Rightarrow> rat option" where
  "window_mean w xs i =
     (if i + 1 < w then None
      else let ws = take w (drop (i + 1 - w) xs)
           in if None \<in> set ws then None else Some (sum_list (map the ws) / of_nat w))"

definition exact_rolling_mean :: "int \<Rightarrow> rat option list \<Rightarrow> rat option list" where
  "exact_rolling_mean w xs =
     (if w \<le> 0 then map (\<lambda>_. None) xs else map (window_mean (nat w) xs) [0..<length xs])"

definition exact_pandas :: "rat option list pandas" where
  "exact_pandas = \<lparr> series_add = series_binop (+),
                     scalar_mul = (\<lambda>c. map (map_option (\<lambda>x. c * x))),
                     rolling_mean = exact_rolling_mean,
                     series_sub = series_binop (-) \<rparr>"

text \<open>
  A database library whose two ways of reading a table disagree on the type of a column:
  a frame is a list of columns, each a type name with its values.
\<close>

definition retyping_lib :: "(int list, int list, (string \<times> int list) list) sql_lib" where
  "retyping_lib = \<lparr> execute = (\<lambda>conn query. conn),
                     frame_of_result = (\<lambda>res. [(''object'', res)]),
                     read_sql_query = (\<lambda>query conn. [(''int64'', conn)]),
                     equals = (=) \<rparr>"

text \<open>An array library over lists of rationals, with exact arithmetic.\<close>

definition exact_numpy :: "(rat list, rat) numpy" where
  "exact_numpy = \<lparr> array_sub = (\<lambda>xs ms. map (\<lambda>x. x - hd ms) xs),
                    array_div = (\<lambda>xs ss. map (\<lambda>x. x / hd ss) xs),
                    array_mean = (\<lambda>xs. sum_list xs / of_nat (length xs)),
                    float_eq = (=),
                    float_str = (\<lambda>x. ''<float>'') \<rparr>"


text \<open>
  A network that answers the first request of the loop with two rows and every later
  request with status 404.
\<close>

definition failing_net :: "nat \<Rightarrow> string \<Rightarrow> int http_response" where
  "failing_net k url =
     (if k = 0 then \<lparr>status_code = 200, historical = Some [10, 11]\<rparr>
      else \<lparr>status_code = 404, historical = None\<rparr>)"

section \<open>Properties\<close>

subsection \<open>Functions whose result depends on their arguments only\<close>




subsection \<open>The generator and the list\<close>

lemma gen_to_list_Suspended: "gen_to_list (Suspended i n) = [i + 1..n - 1]"
proof (induction "nat (n - i)" arbitrary: i)
  case 0
  then have "\<not> i + 1 < n" by simp
  then show ?case
    by (subst gen_to_list.simps) simp
next
  case (Suc k)
  show ?case
  proof (cases "i + 1 < n")
    case True
    from Suc.hyps(2) have "k = nat (n - (i + 1))" by simp
    then have "gen_to_list (Suspended (i + 1) n) = [i + 1 + 1..n - 1]"
      by (rule Suc.hyps(1))
    with True show ?thesis
      by (subst gen_to_list.simps) (simp add: upto_rec1 [of "i + 1" "n - 1"])
  next
    case False
    then show ?thesis
      by (subst gen_to_list.simps) simp
  qed
qed

lemma gen_to_list_Created: "gen_to_list (Created n) = [0..n - 1]"
proof (cases "0 < n")
  case True
  then show ?thesis
    by (subst gen_to_list.simps) (simp add: gen_to_list_Suspended upto_rec1 [of 0 "n - 1"])
next
  case False
  then show ?thesis
    by (subst gen_to_list.simps) simp
qed

lemma upto_int_nat: "[0..int k - 1] = map int [0..<k]"
proof (induction k)
  case 0
  show ?case by simp
next
  case (Suc k)
  have "[0..int (Suc k) - 1] = [0..int k - 1] @ [int k]"
    using upto_rec2 [of 0 "int k"] by simp
  with Suc show ?case by simp
qed

text \<open>
  Claim C8. For every natural number \<open>n\<close>, the list that \<open>return_list(n)\<close> returns is
  the full sequence of values that the generator \<open>yield_list(n)\<close> yields, and both are
  \<open>[0, 1, ..., n-1]\<close>, the sequence of \<open>range(n)\<close>.
\<close>

theorem return_list_eq_yield_list:
  "return_list (int n) = gen_to_list (yield_list (int n))
   \<and> return_list (int n) = map int [0..<n]
   \<and> gen_to_list (yield_list (int n)) = map int [0..<n]
   \<and> map int [0..<n] = py_range (int n)"
  by (simp add: return_list_def yield_list_def py_range_def gen_to_list_Created upto_int_nat)

subsection \<open>The recursive factorial\<close>





subsection \<open>The classes of the repository\<close>

text \<open>
  Claim C5, as amended. The entities of the libraries are defined outside the
  repository, but the repository defines classes of its own: \<open>Student\<close>, whose
  constructor stores its three arguments as the attributes \<open>uni\<close>, \<open>subject\<close> and
  \<open>grades\<close> and whose method \<open>avg_grade\<close> is the mean of the stored grades, and its
  subclass \<open>LocalResident\<close>, whose constructor builds the \<open>Student\<close> part by the
  inherited constructor and stores the address. No invariant goes beyond that: an
  attribute assigned later simply takes the new value. The spider \<open>followSpider\<close> is
  a class of the repository as well: its \<open>start_requests\<close> yields one request, for
  \<open>http://www.example.com\<close>, to be handled by its method \<open>parse_links\<close>.
\<close>

theorem Student_constructor_establishes_fields:
  "uni (Student_init u s g) = u
   \<and> subject (Student_init u s g) = s
   \<and> grades (Student_init u s g) = g
   \<and> avg_grade np_mean (Student_init u s g) = np_mean g
   \<and> Student.truncate (LocalResident_init u s g a) = Student_init u s g
   \<and> address (LocalResident_init u s g a) = a
   \<and> avg_grade np_mean (LocalResident_init u s g a) = np_mean g
   \<and> subject ((Student_init u s g)\<lparr>subject := s'\<rparr>) = s'
   \<and> start_requests = [\<lparr>req_url = ''http://www.example.com'', req_callback = Parse_links\<rparr>]"
  by (simp add: Student_init_def LocalResident_init_def avg_grade_def Student.extend_def
        Student.truncate_def LocalResident.fields_def start_requests_def)

text \<open>
  Claim C5 as stated fails on the objects that the script builds:
  \<open>Student('Regensburg', 'Physics', [1.0, 2.0])\<close> and
  \<open>LocalResident('Passau', 'Art', ..., 'Innstr. 27')\<close> are instances of classes defined
  in the repository, with the attributes that their constructors set.
\<close>

theorem Student_class_counterexample:
  "Student_init ''Regensburg'' ''Physics'' [1, 2 :: rat]
     = \<lparr>uni = ''Regensburg'', subject = ''Physics'', grades = [1, 2]\<rparr>
   \<and> address (LocalResident_init ''Passau'' ''Art'' [3, 5 :: rat] ''Innstr. 27'')
       = ''Innstr. 27''
   \<and> uni (LocalResident_init ''Passau'' ''Art'' [3, 5 :: rat] ''Innstr. 27'') = ''Passau''"
  by (simp add: Student_init_def LocalResident_init_def Student.extend_def
        LocalResident.fields_def)

subsection \<open>The oscillator\<close>

text \<open>
  Claim C9. \<open>awe_osc\<close> is commutative in its two window sizes: for all series
  \<open>high\<close> and \<open>low\<close> and all positive integers \<open>a\<close> and \<open>b\<close>,
  \<open>awe_osc(high, low, a, b)\<close> is the dataframe \<open>awe_osc(high, low, b, a)\<close>, because
  the function swaps the two whenever \<open>slow < fast\<close>: the rolling mean over the smaller
  window is the minuend, and the column is named with the smaller window first.
\<close>

theorem awe_osc_commutative:
  assumes "0 < a" and "0 < b"
  shows "awe_osc pd high low a b = awe_osc pd high low b a
         \<and> awe_osc pd high low a b =
             [(''AO_'' @ py_str (min a b) @ ''_'' @ py_str (max a b),
               series_sub pd
                 (rolling_mean pd (min a b) (scalar_mul pd (1 / 2) (series_add pd high low)))
                 (rolling_mean pd (max a b) (scalar_mul pd (1 / 2) (series_add pd high low))))]"
  by (cases a b rule: linorder_cases) (simp_all add: awe_osc_def Let_def min_def max_def)

theorem awe_osc_commutative_witness:
  "(0::int) < 2 \<and> (0::int) < 1
   \<and> awe_osc exact_pandas [Some 2, Some 4, Some 9] [Some 0, Some 2, Some 1] 2 1
       = awe_osc exact_pandas [Some 2, Some 4, Some 9] [Some 0, Some 2, Some 1] 1 2
   \<and> awe_osc exact_pandas [Some 2, Some 4, Some 9] [Some 0, Some 2, Some 1] 2 1
       = [(''AO_1_2'', [None, Some 1, Some 1])]"
proof -
  have pos: "(0::int) < 2" "(0::int) < 1" by simp_all
  have ev: "awe_osc exact_pandas [Some 2, Some 4, Some 9] [Some 0, Some 2, Some 1] 2 1
              = [(''AO_1_2'', [None, Some 1, Some 1])]"
    by (simp add: awe_osc_def Let_def exact_pandas_def exact_rolling_mean_def window_mean_def
          py_str_def str_nat.simps digit_char_def)
  from awe_osc_commutative [OF pos, of exact_pandas "[Some 2, Some 4, Some 9]"
      "[Some 0, Some 2, Some 1]"]
  have "awe_osc exact_pandas [Some 2, Some 4, Some 9] [Some 0, Some 2, Some 1] 2 1
       = awe_osc exact_pandas [Some 2, Some 4, Some 9] [Some 0, Some 2, Some 1] 1 2"
    by (rule conjunct1)
  with pos ev show ?thesis by simp
qed

subsection \<open>The crawl of \<open>followSpider\<close>\<close>





subsection \<open>A failed status code in the download loop\<close>

lemma dji_loop_abort:
  assumes "k < length syms"
    and "\<forall>p \<in> set (enumerate (length (requests s)) (take k syms)). succeeds re_get p"
    and "status_code (re_get (length (requests s) + k) (symbol_url (syms ! k))) \<noteq> 200"
  shows "dji_loop re_get syms s =
          (None, s\<lparr>requests := requests s @ map symbol_url (take (Suc k) syms),
                    printed := printed s @ [''Error! Aborted''],
                    dji_hist := dji_hist s @
                       concat (map (frame_of re_get)
                                 (enumerate (length (requests s)) (take k syms)))\<rparr>)"
  using assms
proof (induction syms arbitrary: k s)
  case Nil
  then show ?case by simp
next
  case (Cons symbol rest)
  show ?case
  proof (cases k)
    case 0
    with Cons.prems show ?thesis by (simp add: Let_def)
  next
    case (Suc k')
    let ?resp = "re_get (length (requests s)) (symbol_url symbol)"
    from Suc Cons.prems(2) have ok: "succeeds re_get (length (requests s), symbol)"
      by simp
    then obtain rows where st: "status_code ?resp = 200" and rows: "historical ?resp = Some rows"
      by (auto simp: succeeds_def)
    let ?s2 = "s\<lparr>requests := requests s @ [symbol_url symbol],
                 dji_hist := dji_hist s @ map (\<lambda>row. (row, symbol)) rows\<rparr>"
    have len: "length (requests ?s2) = Suc (length (requests s))" by simp
    from Suc Cons.prems have 1: "k' < length rest" by simp
    from Suc Cons.prems(2)
    have 2: "\<forall>p \<in> set (enumerate (length (requests ?s2)) (take k' rest)). succeeds re_get p"
      by (simp add: len)
    from Suc Cons.prems(3)
    have 3: "status_code (re_get (length (requests ?s2) + k') (symbol_url (rest ! k'))) \<noteq> 200"
      by (simp add: len)
    have step: "dji_loop re_get (symbol # rest) s = dji_loop re_get rest ?s2"
      using st rows by (simp add: Let_def)
    have fr: "frame_of re_get (length (requests s), symbol) = map (\<lambda>row. (row, symbol)) rows"
      using rows by (simp add: frame_of_def)
    show ?thesis
      unfolding step Cons.IH [OF 1 2 3]
      using Suc fr by (simp add: len)
  qed
qed

text \<open>
  Claim C3, as amended. Where the code only looks at the status code (cell 21), it
  prints it and goes on with the response whatever the status was. In the download loop
  (cell 24) a response with a status other than 200 is handled: if the first \<open>k\<close>
  requests of the loop succeed (status 200 and a \<open>historical\<close> entry) and the request
  number \<open>k\<close>, for one of the first five symbols, has another status, the code
  prints \<open>Error! Aborted\<close> (not the status code) and leaves the loop without an
  exception; the frames of the \<open>k\<close> symbols before are kept, the failing symbol and the
  symbols after it contribute nothing, and each of the first \<open>k + 1\<close> symbols has been
  requested exactly once, in order: nothing is retried or recovered.
\<close>

theorem failed_status_aborts_download_loop:
  assumes "k < 5" and "k < length dji_symbols"
    and "\<forall>p \<in> set (enumerate 0 (take k dji_symbols)). succeeds re_get p"
    and "status_code (re_get k (symbol_url (dji_symbols ! k))) \<noteq> 200"
  shows "cell_24 re_get dji_symbols =
          (None, \<lparr>requests = map symbol_url (take (Suc k) dji_symbols),
                  printed = [''Error! Aborted''],
                  dji_hist = concat (map (frame_of re_get)
                                       (enumerate 0 (take k dji_symbols)))\<rparr>)
         \<and> cell_21 get =
             ([py_str (status_code (get (base_url @ ''dowjones_constituent'')))],
              get (base_url @ ''dowjones_constituent''))"
proof
  let ?s0 = "\<lparr>requests = [], printed = [], dji_hist = []\<rparr> :: 'a cell_state"
  from assms have 1: "k < length (take 5 dji_symbols)" by simp
  from assms have tk: "take k (take 5 dji_symbols) = take k dji_symbols"
    by (simp add: min_def)
  from assms have tk1: "take (Suc k) (take 5 dji_symbols) = take (Suc k) dji_symbols"
    by (simp add: min_def)
  from assms have nth: "take 5 dji_symbols ! k = dji_symbols ! k" by simp
  have 2: "\<forall>p \<in> set (enumerate (length (requests ?s0)) (take k (take 5 dji_symbols))).
             succeeds re_get p"
    using assms(3) unfolding tk by simp
  have 3: "status_code (re_get (length (requests ?s0) + k)
             (symbol_url (take 5 dji_symbols ! k))) \<noteq> 200"
    using assms(4) unfolding nth by simp
  show "cell_24 re_get dji_symbols =
          (None, \<lparr>requests = map symbol_url (take (Suc k) dji_symbols),
                  printed = [''Error! Aborted''],
                  dji_hist = concat (map (frame_of re_get)
                                       (enumerate 0 (take k dji_symbols)))\<rparr>)"
    unfolding cell_24_def dji_loop_abort [OF 1 2 3] tk tk1
    by simp
next
  show "cell_21 get =
          ([py_str (status_code (get (base_url @ ''dowjones_constituent'')))],
           get (base_url @ ''dowjones_constituent''))"
    by (simp add: cell_21_def Let_def)
qed

theorem failed_status_aborts_download_loop_witness:
  "(1::nat) < 5 \<and> 1 < length [''AAPL'', ''MSFT'', ''IBM'']
   \<and> enumerate 0 (take 1 [''AAPL'', ''MSFT'', ''IBM'']) = [(0, ''AAPL'')]
   \<and> succeeds failing_net (0, ''AAPL'')
   \<and> status_code (failing_net 1 (symbol_url ([''AAPL'', ''MSFT'', ''IBM''] ! 1))) \<noteq> 200
   \<and> cell_24 failing_net [''AAPL'', ''MSFT'', ''IBM''] =
       (None, \<lparr>requests = [symbol_url ''AAPL'', symbol_url ''MSFT''],
               printed = [''Error! Aborted''],
               dji_hist = [(10, ''AAPL''), (11, ''AAPL'')]\<rparr>)"
proof -
  have h1: "(1::nat) < 5" by simp
  have h2: "1 < length [''AAPL'', ''MSFT'', ''IBM'']" by simp
  have h3: "\<forall>p \<in> set (enumerate 0 (take 1 [''AAPL'', ''MSFT'', ''IBM''])). succeeds failing_net p"
    by (simp add: succeeds_def failing_net_def)
  have h4: "status_code (failing_net 1 (symbol_url ([''AAPL'', ''MSFT'', ''IBM''] ! 1))) \<noteq> 200"
    by (simp add: failing_net_def)
  from failed_status_aborts_download_loop [OF h1 h2 h3 h4]
  have "cell_24 failing_net [''AAPL'', ''MSFT'', ''IBM''] =
          (None, \<lparr>requests = map symbol_url (take (Suc 1) [''AAPL'', ''MSFT'', ''IBM'']),
                  printed = [''Error! Aborted''],
                  dji_hist = concat (map (frame_of failing_net)
                                       (enumerate 0 (take 1 [''AAPL'', ''MSFT'', ''IBM''])))\<rparr>)"
    by (rule conjunct1)
  then have "cell_24 failing_net [''AAPL'', ''MSFT'', ''IBM''] =
       (None, \<lparr>requests = [symbol_url ''AAPL'', symbol_url ''MSFT''],
               printed = [''Error! Aborted''],
               dji_hist = [(10, ''AAPL''), (11, ''AAPL'')]\<rparr>)"
    by (simp add: frame_of_def failing_net_def)
  moreover have "enumerate 0 (take 1 [''AAPL'', ''MSFT'', ''IBM'']) = [(0 :: nat, ''AAPL'')]"
    by simp
  moreover have "succeeds failing_net (0, ''AAPL'')"
    by (simp add: succeeds_def failing_net_def)
  ultimately show ?thesis using h1 h2 h4 by blast
qed

text \<open>
  Claim C3 as stated fails where the second of three symbols is answered with status
  404: the code does not print the status code, it prints \<open>Error! Aborted\<close>; it
  handles the failure by leaving the loop, so that the third symbol is never requested;
  and the rows of the first symbol stay in the collected frame, a partial result.
\<close>

theorem failed_status_counterexample:
  "status_code (failing_net 1 (symbol_url ''MSFT'')) = 404
   \<and> printed (snd (cell_24 failing_net [''AAPL'', ''MSFT'', ''IBM''])) = [''Error! Aborted'']
   \<and> py_str 404 \<notin> set (printed (snd (cell_24 failing_net [''AAPL'', ''MSFT'', ''IBM''])))
   \<and> symbol_url ''IBM'' \<notin> set (requests (snd (cell_24 failing_net [''AAPL'', ''MSFT'', ''IBM''])))
   \<and> dji_hist (snd (cell_24 failing_net [''AAPL'', ''MSFT'', ''IBM'']))
       = [(10, ''AAPL''), (11, ''AAPL'')]
   \<and> fst (cell_24 failing_net [''AAPL'', ''MSFT'', ''IBM'']) = None"
  by (simp add: cell_24_def failing_net_def Let_def symbol_url_def
        py_str_def str_nat.simps digit_char_def)

subsection \<open>Checks that the scripts add to library calls\<close>

text \<open>
  Claim C4, as amended. Most cells are plain library calls, but the repository's code does
  put checks of its own on top of them: cells 33 to 35 of \<open>04_data.py\<close> raise
  \<open>AssertionError\<close> exactly when the frame built from \<open>conn.execute\<close> and the frame
  of \<open>pd.read_sql_query\<close> are not equal; cell 4 of \<open>09_sklearn.py\<close> raises it
  exactly when the mean of the hand-scaled data and the mean of the library-scaled data
  are not equal; and the download loop of \<open>05_online.py\<close> checks the status code of
  each response and, when it is not 200, requests none of the remaining symbols. The
  failed request is not sent again: no retry logic is layered on top.
\<close>

theorem scripts_check_library_results:
  "(cells_33_35 lib conn = Inl AssertionError)
     = (\<not> equals lib
            (frame_of_result lib (execute lib conn ''SELECT * FROM historical_data''))
            (read_sql_query lib ''SELECT * FROM historical_data'' conn))
   \<and> (snd (sklearn_cell_4 np x_alt scaler_mean scaler_scale x_alt_scaled) = Inl AssertionError)
       = (\<not> float_eq np
              (array_mean np (array_div np (array_sub np x_alt scaler_mean) scaler_scale))
              (array_mean np x_alt_scaled))
   \<and> (status_code (re_get (length (requests s)) (symbol_url symbol)) \<noteq> 200 \<longrightarrow>
        dji_loop re_get (symbol # rest) s =
          (None, s\<lparr>requests := requests s @ [symbol_url symbol],
                    printed := printed s @ [''Error! Aborted'']\<rparr>))"
  by (simp add: cells_33_35_def sklearn_cell_4_def py_assert_def Let_def)

theorem scripts_check_library_results_witness:
  "status_code (failing_net (length (requests \<lparr>requests = [symbol_url ''AAPL''], printed = [],
                                               dji_hist = [(10, ''AAPL'')]\<rparr>))
                  (symbol_url ''MSFT'')) \<noteq> 200
   \<and> dji_loop failing_net [''MSFT'', ''IBM'']
         \<lparr>requests = [symbol_url ''AAPL''], printed = [], dji_hist = [(10, ''AAPL'')]\<rparr>
       = (None, \<lparr>requests = [symbol_url ''AAPL'', symbol_url ''MSFT''],
                  printed = [''Error! Aborted''], dji_hist = [(10, ''AAPL'')]\<rparr>)
   \<and> cells_33_35 retyping_lib [1, 2] = Inl AssertionError
   \<and> snd (sklearn_cell_4 exact_numpy [1, 3] [2] [1] [5, 7]) = Inl AssertionError"
proof -
  let ?s = "\<lparr>requests = [symbol_url ''AAPL''], printed = [],
             dji_hist = [(10 :: int, ''AAPL'')]\<rparr>"
  have h: "status_code (failing_net (length (requests ?s)) (symbol_url ''MSFT'')) \<noteq> 200"
    by (simp add: failing_net_def)
  note inst = scripts_check_library_results
    [where lib = retyping_lib and conn = "[1, 2]" and np = exact_numpy and x_alt = "[1, 3]"
       and scaler_mean = "[2]" and scaler_scale = "[1]" and x_alt_scaled = "[5, 7]"
       and re_get = failing_net and s = "?s" and symbol = "''MSFT''" and rest = "[''IBM'']"]
  from inst h have loop: "dji_loop failing_net [''MSFT'', ''IBM''] ?s =
      (None, ?s\<lparr>requests := requests ?s @ [symbol_url ''MSFT''],
                 printed := printed ?s @ [''Error! Aborted'']\<rparr>)"
    by blast
  from inst have a1: "cells_33_35 retyping_lib [1, 2] = Inl AssertionError"
    by (simp add: retyping_lib_def)
  from inst have a2: "snd (sklearn_cell_4 exact_numpy [1, 3] [2] [1] [5, 7]) = Inl AssertionError"
    by (simp add: exact_numpy_def)
  from h loop a1 a2 show ?thesis by simp
qed

text \<open>
  Claim C4 as stated fails on a database library whose two ways of reading the table
  give frames that are not equal: the cells do not pass the two results on, they raise
  \<open>AssertionError\<close>. The assertion is a consistency check of the repository's own.
\<close>

theorem assertion_counterexample:
  "execute retyping_lib [1, 2] ''SELECT * FROM historical_data'' = [1, 2]
   \<and> frame_of_result retyping_lib [1, 2] = [(''object'', [1, 2])]
   \<and> read_sql_query retyping_lib ''SELECT * FROM historical_data'' [1, 2] = [(''int64'', [1, 2])]
   \<and> cells_33_35 retyping_lib [1, 2] = Inl AssertionError"
  by (simp add: cells_33_35_def retyping_lib_def py_assert_def)

subsection \<open>Endpoints and files\<close>

lemma remote_urls_targets:
  "u \<in> set (remote_urls l) \<Longrightarrow> targets contacted_endpoints u"
  by (cases l)
     (auto simp: remote_urls_def targets_def contacted_endpoints_def named_endpoints_def
        base_url_def mySpider_start_requests_def start_requests_def)

lemma reads_ext: "p \<in> set (reads l) \<Longrightarrow> file_ext p \<in> set [''csv'', ''xlsx'', ''sqlite'']"
  by (cases l)
     (auto simp: reads_def file_ext_def mySpider_start_requests_def start_requests_def)

lemma symbol_url_targets: "targets named_endpoints (symbol_url symbol)"
  by (simp add: targets_def named_endpoints_def symbol_url_def base_url_def)

text \<open>
  Claim C6, as amended. Every request whose URL the code writes down goes to Wikipedia,
  the financial-data provider or Yahoo Finance, or to \<open>www.example.com\<close> (the start
  requests of the two spiders), \<open>www.dropbox.com\<close> or \<open>raw.githubusercontent.com\<close>
  (tables read by \<open>pd.read_csv\<close> from a URL); every request of the download loop goes
  to the financial-data provider, whatever the symbol; and every file that the code
  reads under a local path is a CSV, Excel or SQLite file.
\<close>

theorem requests_target_known_endpoints:
  "(\<forall>u \<in> set (remote_urls l). targets contacted_endpoints u)
   \<and> targets named_endpoints (symbol_url symbol)
   \<and> (\<forall>p \<in> set (reads l). file_ext p \<in> set [''csv'', ''xlsx'', ''sqlite''])"
  using remote_urls_targets reads_ext symbol_url_targets by blast

theorem requests_target_known_endpoints_witness:
  "''http://www.example.com'' \<in> set (remote_urls L06_scraping)
   \<and> targets contacted_endpoints ''http://www.example.com''
   \<and> ''data/DAX.csv'' \<in> set (reads L04_data)
   \<and> file_ext ''data/DAX.csv'' \<in> set [''csv'', ''xlsx'', ''sqlite'']"
proof -
  have m1: "''http://www.example.com'' \<in> set (remote_urls L06_scraping)"
    by (simp add: remote_urls_def mySpider_start_requests_def start_requests_def)
  have m2: "''data/DAX.csv'' \<in> set (reads L04_data)"
    by (simp add: reads_def)
  from requests_target_known_endpoints [of L06_scraping] m1
  have t1: "targets contacted_endpoints ''http://www.example.com''" by blast
  from requests_target_known_endpoints [of L04_data] m2
  have t2: "file_ext ''data/DAX.csv'' \<in> set [''csv'', ''xlsx'', ''sqlite'']" by blast
  from m1 m2 t1 t2 show ?thesis by blast
qed

text \<open>
  Claim C6 as stated fails on the start request of the spiders, which goes to
  \<open>http://www.example.com\<close>, and on the table that \<open>09_dash_II.py\<close> reads from
  \<open>raw.githubusercontent.com\<close>: neither is one of the three services, and the second
  is a data access that is not local file I/O.
\<close>

theorem other_endpoint_counterexample:
  "''http://www.example.com'' \<in> set (map req_url start_requests)
   \<and> ''http://www.example.com'' \<in> set (remote_urls L06_scraping)
   \<and> \<not> targets named_endpoints ''http://www.example.com''
   \<and> ''https://raw.githubusercontent.com/plotly/datasets/master/imports-85.csv''
         \<in> set (remote_urls L09_dash_II)
   \<and> \<not> targets named_endpoints
         ''https://raw.githubusercontent.com/plotly/datasets/master/imports-85.csv''"
  by (simp add: remote_urls_def targets_def named_endpoints_def
        mySpider_start_requests_def start_requests_def)






end
